theory Spec2Isabelle
  imports Main
begin

section \<open>Values of the JavaScript runtime\<close>

text \<open>
  A JavaScript \<^verbatim>\<open>throw\<close> can raise any value. The handlers of \<^verbatim>\<open>src/index.ts\<close>
  tell two kinds apart: an instance of \<^verbatim>\<open>Error\<close>, whose \<^verbatim>\<open>message\<close> they read, and
  anything else, which they convert with \<^verbatim>\<open>String(error)\<close>.
\<close>

datatype js_primitive = Undefined | Null | Boolean bool | Str string

fun String :: "js_primitive \<Rightarrow> string" where
  "String Undefined = ''undefined''"
| "String Null = ''null''"
| "String (Boolean b) = (if b then ''true'' else ''false'')"
| "String (Str s) = s"

datatype thrown = Error (message: string) | NonError js_primitive

text \<open>
  The response envelope of a tool: \<^verbatim>\<open>{ content: [{ type: "text", text: ... }] }\<close>.
  The fields \<^verbatim>\<open>type\<close> and \<^verbatim>\<open>text\<close> carry a prime here.
\<close>

record content_block =
  type' :: string
  text' :: string

record tool_result =
  content :: "content_block list"

section \<open>The blockchain client\<close>

text \<open>
  \<^verbatim>\<open>new Connection(url)\<close> binds a client handle to one endpoint. The two handles of the
  program are module-level constants.
\<close>

record Connection =
  rpcEndpoint :: string

definition connectionTestnet :: Connection where
  "connectionTestnet = \<lparr>rpcEndpoint = ''https://rpc.testnet.soo.network/rpc''\<rparr>"

definition connectionMainnet :: Connection where
  "connectionMainnet = \<lparr>rpcEndpoint = ''https://rpc.mainnet.soo.network/rpc''\<rparr>"

text \<open>The argument objects of the client's methods, and one entry of a signature list.\<close>

record SignaturesForAddressOptions =
  limit :: "nat option"

datatype 'pk TokenAccountsFilter = ProgramId 'pk | Mint 'pk

record ConfirmedSignatureInfo =
  signature :: string
  slot :: nat
  blockTime :: "nat option"

text \<open>A method call on a client handle, with its arguments.\<close>

datatype 'pk request =
    GetBalance 'pk
  | GetSignaturesForAddress 'pk SignaturesForAddressOptions
  | GetConfirmedTransaction string
  | GetTokenAccountsByOwner 'pk "'pk TokenAccountsFilter"

text \<open>
  What a handler does besides returning: it invokes methods of a client handle, and it
  reads an array at an index (\<open>ArrayRead i n\<close>: index \<open>i\<close> of an array of length \<open>n\<close>).
\<close>

datatype 'pk event =
    Rpc Connection "'pk request"
  | ArrayRead nat nat

fun rpc_calls :: "'pk event list \<Rightarrow> (Connection \<times> 'pk request) list" where
  "rpc_calls [] = []"
| "rpc_calls (Rpc c r # es) = (c, r) # rpc_calls es"
| "rpc_calls (ArrayRead i n # es) = rpc_calls es"

text \<open>
  The libraries and the network are outside the program: they are parameters. A node
  answers each query with a value or makes the client throw. \<open>'pk\<close> is the type of
  public keys, \<open>'num\<close> of numbers, \<open>'val\<close> of the structures a query returns
  (a transaction record or \<^verbatim>\<open>null\<close>, a list of token accounts).
\<close>

record ('pk, 'num, 'val) node =
  balance_reply :: "'pk \<Rightarrow> thrown + 'num"
  signatures_reply :: "'pk \<Rightarrow> SignaturesForAddressOptions \<Rightarrow> thrown + ConfirmedSignatureInfo list"
  transaction_reply :: "string \<Rightarrow> thrown + 'val"
  token_accounts_reply :: "'pk \<Rightarrow> 'pk TokenAccountsFilter \<Rightarrow> thrown + 'val"

record ('pk, 'num, 'val) runtime =
  PublicKey :: "string \<Rightarrow> thrown + 'pk"
  node_at :: "string \<Rightarrow> ('pk, 'num, 'val) node"
  Number_toString :: "'num \<Rightarrow> string"
  JSON_stringify :: "'val \<Rightarrow> thrown + string"

section \<open>Asynchronous computations\<close>

text \<open>
  An \<^verbatim>\<open>async\<close> function body is a computation that extends the trace of events and
  ends with a value (the promise resolves, \<open>Inr\<close>) or with a thrown value (the promise
  rejects, \<open>Inl\<close>).
\<close>

type_synonym ('pk, 'a) io = "'pk event list \<Rightarrow> (thrown + 'a) \<times> 'pk event list"

definition return_io :: "'a \<Rightarrow> ('pk, 'a) io" where
  "return_io x = (\<lambda>tr. (Inr x, tr))"

definition eval_io :: "thrown + 'a \<Rightarrow> ('pk, 'a) io" where
  "eval_io r = (\<lambda>tr. (r, tr))"

definition bind_io :: "('pk, 'a) io \<Rightarrow> ('a \<Rightarrow> ('pk, 'b) io) \<Rightarrow> ('pk, 'b) io" where
  "bind_io m k = (\<lambda>tr. case m tr of
                      (Inl e, tr') \<Rightarrow> (Inl e, tr')
                    | (Inr x, tr') \<Rightarrow> k x tr')"

definition try_catch :: "('pk, 'a) io \<Rightarrow> (thrown \<Rightarrow> ('pk, 'a) io) \<Rightarrow> ('pk, 'a) io" where
  "try_catch m h = (\<lambda>tr. case m tr of
                      (Inl e, tr') \<Rightarrow> h e tr'
                    | (Inr x, tr') \<Rightarrow> (Inr x, tr'))"

definition invoke_method :: "Connection \<Rightarrow> 'pk request \<Rightarrow> thrown + 'a \<Rightarrow> ('pk, 'a) io" where
  "invoke_method conn req reply = (\<lambda>tr. (reply, tr @ [Rpc conn req]))"

text \<open>The four methods of a client handle that the program calls.\<close>

definition getBalance ::
  "('pk, 'num, 'val) runtime \<Rightarrow> Connection \<Rightarrow> 'pk \<Rightarrow> ('pk, 'num) io" where
  "getBalance w conn publicKey =
     invoke_method conn (GetBalance publicKey)
       (balance_reply (node_at w (rpcEndpoint conn)) publicKey)"

definition getSignaturesForAddress ::
  "('pk, 'num, 'val) runtime \<Rightarrow> Connection \<Rightarrow> 'pk \<Rightarrow> SignaturesForAddressOptions
     \<Rightarrow> ('pk, ConfirmedSignatureInfo list) io" where
  "getSignaturesForAddress w conn publicKey options =
     invoke_method conn (GetSignaturesForAddress publicKey options)
       (signatures_reply (node_at w (rpcEndpoint conn)) publicKey options)"

definition getConfirmedTransaction ::
  "('pk, 'num, 'val) runtime \<Rightarrow> Connection \<Rightarrow> string \<Rightarrow> ('pk, 'val) io" where
  "getConfirmedTransaction w conn sig =
     invoke_method conn (GetConfirmedTransaction sig)
       (transaction_reply (node_at w (rpcEndpoint conn)) sig)"

definition getTokenAccountsByOwner ::
  "('pk, 'num, 'val) runtime \<Rightarrow> Connection \<Rightarrow> 'pk \<Rightarrow> 'pk TokenAccountsFilter
     \<Rightarrow> ('pk, 'val) io" where
  "getTokenAccountsByOwner w conn owner flt =
     invoke_method conn (GetTokenAccountsByOwner owner flt)
       (token_accounts_reply (node_at w (rpcEndpoint conn)) owner flt)"

text \<open>
  \<^verbatim>\<open>signatures[i].signature\<close>: an index outside the array reads \<^verbatim>\<open>undefined\<close>, and
  reading a property of \<^verbatim>\<open>undefined\<close> throws a \<^verbatim>\<open>TypeError\<close>, which is an \<^verbatim>\<open>Error\<close>.
\<close>

definition undefined_property_error :: thrown where
  "undefined_property_error = Error ''Cannot read properties of undefined''"

definition signature_at :: "ConfirmedSignatureInfo list \<Rightarrow> nat \<Rightarrow> ('pk, string) io" where
  "signature_at signatures i =
     (\<lambda>tr. (if i < length signatures then Inr (signature (signatures ! i))
             else Inl undefined_property_error,
            tr @ [ArrayRead i (length signatures)]))"

section \<open>The six tool handlers\<close>

definition get_soon_testnet_balance ::
  "('pk, 'num, 'val) runtime \<Rightarrow> string \<Rightarrow> ('pk, tool_result) io" where
  "get_soon_testnet_balance w address =
     bind_io (eval_io (PublicKey w address)) (\<lambda>publicKey.
     bind_io (getBalance w connectionTestnet publicKey) (\<lambda>balance.
     return_io \<lparr>content =
       [\<lparr>type' = ''text'', text' = ''Balance: '' @ Number_toString w balance\<rparr>]\<rparr>))"

definition get_soon_testnet_last_transaction ::
  "('pk, 'num, 'val) runtime \<Rightarrow> string \<Rightarrow> ('pk, tool_result) io" where
  "get_soon_testnet_last_transaction w address =
     try_catch
       (bind_io (eval_io (PublicKey w address)) (\<lambda>publicKey.
        bind_io (getSignaturesForAddress w connectionTestnet publicKey \<lparr>limit = Some 1\<rparr>)
          (\<lambda>signatures.
        if length signatures = 0 then
          return_io \<lparr>content =
            [\<lparr>type' = ''text'', text' = ''No transactions found for this address''\<rparr>]\<rparr>
        else
        bind_io (signature_at signatures 0) (\<lambda>latestSignature.
        bind_io (getConfirmedTransaction w connectionTestnet latestSignature) (\<lambda>transaction.
        bind_io (eval_io (JSON_stringify w transaction)) (\<lambda>json.
        return_io \<lparr>content = [\<lparr>type' = ''text'', text' = json\<rparr>]\<rparr>))))))
       (\<lambda>error.
        return_io \<lparr>content =
          [\<lparr>type' = ''text'',
            text' = ''Error getting transaction: '' @
              (case error of Error msg \<Rightarrow> msg | NonError v \<Rightarrow> String v)\<rparr>]\<rparr>)"

definition get_soon_testnet_account_tokens ::
  "('pk, 'num, 'val) runtime \<Rightarrow> string \<Rightarrow> ('pk, tool_result) io" where
  "get_soon_testnet_account_tokens w address =
     try_catch
       (bind_io (eval_io (PublicKey w address)) (\<lambda>owner.
        bind_io (eval_io (PublicKey w ''TokenkegQfeZyiNwAJbNbGKPFXCWuBvf9Ss623VQ5DA''))
          (\<lambda>program.
        bind_io (getTokenAccountsByOwner w connectionTestnet owner (ProgramId program))
          (\<lambda>tokens.
        bind_io (eval_io (JSON_stringify w tokens)) (\<lambda>json.
        return_io \<lparr>content = [\<lparr>type' = ''text'', text' = json\<rparr>]\<rparr>)))))
       (\<lambda>error.
        return_io \<lparr>content =
          [\<lparr>type' = ''text'',
            text' = ''Error getting tokens: '' @
              (case error of Error msg \<Rightarrow> msg | NonError v \<Rightarrow> String v)\<rparr>]\<rparr>)"

definition get_soon_mainnet_balance ::
  "('pk, 'num, 'val) runtime \<Rightarrow> string \<Rightarrow> ('pk, tool_result) io" where
  "get_soon_mainnet_balance w address =
     bind_io (eval_io (PublicKey w address)) (\<lambda>publicKey.
     bind_io (getBalance w connectionMainnet publicKey) (\<lambda>balance.
     return_io \<lparr>content =
       [\<lparr>type' = ''text'', text' = ''Balance: '' @ Number_toString w balance\<rparr>]\<rparr>))"

definition get_soon_mainnet_last_transaction ::
  "('pk, 'num, 'val) runtime \<Rightarrow> string \<Rightarrow> ('pk, tool_result) io" where
  "get_soon_mainnet_last_transaction w address =
     try_catch
       (bind_io (eval_io (PublicKey w address)) (\<lambda>publicKey.
        bind_io (getSignaturesForAddress w connectionMainnet publicKey \<lparr>limit = Some 1\<rparr>)
          (\<lambda>signatures.
        if length signatures = 0 then
          return_io \<lparr>content =
            [\<lparr>type' = ''text'', text' = ''No transactions found for this address''\<rparr>]\<rparr>
        else
        bind_io (signature_at signatures 0) (\<lambda>latestSignature.
        bind_io (getConfirmedTransaction w connectionMainnet latestSignature) (\<lambda>transaction.
        bind_io (eval_io (JSON_stringify w transaction)) (\<lambda>json.
        return_io \<lparr>content = [\<lparr>type' = ''text'', text' = json\<rparr>]\<rparr>))))))
       (\<lambda>error.
        return_io \<lparr>content =
          [\<lparr>type' = ''text'',
            text' = ''Error getting transaction: '' @
              (case error of Error msg \<Rightarrow> msg | NonError v \<Rightarrow> String v)\<rparr>]\<rparr>)"

definition get_soon_mainnet_account_tokens ::
  "('pk, 'num, 'val) runtime \<Rightarrow> string \<Rightarrow> ('pk, tool_result) io" where
  "get_soon_mainnet_account_tokens w address =
     try_catch
       (bind_io (eval_io (PublicKey w address)) (\<lambda>owner.
        bind_io (eval_io (PublicKey w ''TokenkegQfeZyiNwAJbNbGKPFXCWuBvf9Ss623VQ5DA''))
          (\<lambda>program.
        bind_io (getTokenAccountsByOwner w connectionMainnet owner (ProgramId program))
          (\<lambda>tokens.
        bind_io (eval_io (JSON_stringify w tokens)) (\<lambda>json.
        return_io \<lparr>content = [\<lparr>type' = ''text'', text' = json\<rparr>]\<rparr>)))))
       (\<lambda>error.
        return_io \<lparr>content =
          [\<lparr>type' = ''text'',
            text' = ''Error getting tokens: '' @
              (case error of Error msg \<Rightarrow> msg | NonError v \<Rightarrow> String v)\<rparr>]\<rparr>)"

section \<open>Tool families and the registry\<close>

text \<open>
  The catalogue has three tools per network. The functions below name the handler and
  the client handle that belong to a network; \<open>server_tools\<close> lists the six
  registrations of \<^verbatim>\<open>server.tool(name, description, schema, handler)\<close> in source order
  (the schema of each is one string parameter, \<^verbatim>\<open>address\<close>).
\<close>

datatype network = Testnet | Mainnet

fun network_name :: "network \<Rightarrow> string" where
  "network_name Testnet = ''testnet''"
| "network_name Mainnet = ''mainnet''"

fun connection_of :: "network \<Rightarrow> Connection" where
  "connection_of Testnet = connectionTestnet"
| "connection_of Mainnet = connectionMainnet"

fun balance_tool ::
  "network \<Rightarrow> ('pk, 'num, 'val) runtime \<Rightarrow> string \<Rightarrow> ('pk, tool_result) io" where
  "balance_tool Testnet = get_soon_testnet_balance"
| "balance_tool Mainnet = get_soon_mainnet_balance"

fun last_transaction_tool ::
  "network \<Rightarrow> ('pk, 'num, 'val) runtime \<Rightarrow> string \<Rightarrow> ('pk, tool_result) io" where
  "last_transaction_tool Testnet = get_soon_testnet_last_transaction"
| "last_transaction_tool Mainnet = get_soon_mainnet_last_transaction"

fun account_tokens_tool ::
  "network \<Rightarrow> ('pk, 'num, 'val) runtime \<Rightarrow> string \<Rightarrow> ('pk, tool_result) io" where
  "account_tokens_tool Testnet = get_soon_testnet_account_tokens"
| "account_tokens_tool Mainnet = get_soon_mainnet_account_tokens"

definition server_tools ::
  "(string \<times> string \<times> (('pk, 'num, 'val) runtime \<Rightarrow> string \<Rightarrow> ('pk, tool_result) io)) list" where
  "server_tools =
    [(''get-soon-testnet-balance'',
        ''Get the balance of a address on the Soon testnet'',
        get_soon_testnet_balance),
     (''get-soon-testnet-last-transaction'',
        ''Get the last transaction of an address on the Soon testnet'',
        get_soon_testnet_last_transaction),
     (''get-soon-testnet-account-tokens'',
        ''Get the tokens of a address on the Soon testnet'',
        get_soon_testnet_account_tokens),
     (''get-soon-mainnet-balance'',
        ''Get the balance of a address on the Soon mainnet'',
        get_soon_mainnet_balance),
     (''get-soon-mainnet-last-transaction'',
        ''Get the last transaction of an address on the Soon mainnet'',
        get_soon_mainnet_last_transaction),
     (''get-soon-mainnet-account-tokens'',
        ''Get the tokens of a address on the Soon mainnet'',
        get_soon_mainnet_account_tokens)]"

text \<open>A tool is named for a network when its name starts with \<^verbatim>\<open>get-soon-<net>-\<close>.\<close>

definition named_for :: "network \<Rightarrow> string \<Rightarrow> bool" where
  "named_for net name \<longleftrightarrow>
     take (length (''get-soon-'' @ network_name net @ ''-'')) name
       = ''get-soon-'' @ network_name net @ ''-''"

text \<open>
  One invocation of a handler starts from the empty trace: \<open>outcome\<close> is what the
  promise settles to, \<open>trace\<close> what the invocation did.
\<close>

definition outcome :: "('pk, 'a) io \<Rightarrow> thrown + 'a" where
  "outcome m = fst (m [])"

definition trace :: "('pk, 'a) io \<Rightarrow> 'pk event list" where
  "trace m = snd (m [])"

text \<open>
  Shorthands for statements: the envelope with one text block; the text the
  \<^verbatim>\<open>catch\<close> branches derive from a thrown value,
  \<^verbatim>\<open>error instanceof Error ? error.message : String(error)\<close>; the token-program identifier.
\<close>

definition text_result :: "string \<Rightarrow> tool_result" where
  "text_result t = \<lparr>content = [\<lparr>type' = ''text'', text' = t\<rparr>]\<rparr>"

definition error_message :: "thrown \<Rightarrow> string" where
  "error_message error = (case error of Error msg \<Rightarrow> msg | NonError v \<Rightarrow> String v)"

definition TOKEN_PROGRAM_ID :: string where
  "TOKEN_PROGRAM_ID = ''TokenkegQfeZyiNwAJbNbGKPFXCWuBvf9Ss623VQ5DA''"


section \<open>A sample runtime\<close>

text \<open>
  A concrete runtime on which the handlers can be run: public keys are their own text,
  numbers are naturals printed in decimal, four addresses are known, and the two nodes
  answer differently. \<open>addr_down\<close> makes every query fail; \<open>strict_runtime\<close>
  rejects the token-program identifier and throws a value that is not an \<^verbatim>\<open>Error\<close>.
\<close>

definition addr_idle :: string where
  "addr_idle = ''11111111111111111111111111111111''"

definition addr_active :: string where
  "addr_active = ''So11111111111111111111111111111111111111112''"

definition addr_odd :: string where
  "addr_odd = ''Stake11111111111111111111111111111111111111''"

definition addr_down :: string where
  "addr_down = ''Vote111111111111111111111111111111111111111''"

datatype sample_value = JsNull | Plain string | Circular

fun sample_stringify :: "sample_value \<Rightarrow> thrown + string" where
  "sample_stringify JsNull = Inr ''null''"
| "sample_stringify (Plain s) = Inr s"
| "sample_stringify Circular = Inl (Error ''Converting circular structure to JSON'')"

function decimal :: "nat \<Rightarrow> string" where
  "decimal n = (if n < 10 then [''0123456789'' ! n]
                else decimal (n div 10) @ [''0123456789'' ! (n mod 10)])"
  by pat_completeness auto
termination
  by (relation "measure id") auto

declare decimal.simps [simp del]

definition sample_PublicKey :: "string \<Rightarrow> thrown + string" where
  "sample_PublicKey s =
     (if s \<in> set [addr_idle, addr_active, addr_odd, addr_down, TOKEN_PROGRAM_ID] then Inr s
      else Inl (Error ''Invalid public key input''))"

definition sample_testnet :: "(string, nat, sample_value) node" where
  "sample_testnet =
     \<lparr>balance_reply = (\<lambda>pk. if pk = addr_down then Inl (Error ''fetch failed'') else Inr 1500),
      signatures_reply = (\<lambda>pk options.
         if pk = addr_down then Inl (Error ''fetch failed'')
         else if pk = addr_active then
           Inr (take (case limit options of None \<Rightarrow> 2 | Some k \<Rightarrow> k)
                  [\<lparr>signature = ''sig-9'', slot = 9, blockTime = Some 1700000009\<rparr>,
                   \<lparr>signature = ''sig-4'', slot = 4, blockTime = None\<rparr>])
         else if pk = addr_odd then Inr [\<lparr>signature = ''sig-odd'', slot = 3, blockTime = None\<rparr>]
         else Inr []),
      transaction_reply = (\<lambda>sig.
         if sig = ''sig-9'' then Inr (Plain ''{slot:9}'')
         else if sig = ''sig-odd'' then Inr Circular
         else Inr JsNull),
      token_accounts_reply = (\<lambda>owner flt.
         if owner = addr_down then Inl (NonError (Str ''socket hang up''))
         else if owner = addr_odd then Inr Circular
         else Inr (Plain ''{value:[]}''))\<rparr>"

definition sample_mainnet :: "(string, nat, sample_value) node" where
  "sample_mainnet =
     \<lparr>balance_reply = (\<lambda>pk. if pk = addr_down then Inl (Error ''fetch failed'') else Inr 0),
      signatures_reply = (\<lambda>pk options.
         if pk = addr_down then Inl (Error ''fetch failed'')
         else if pk = addr_active then
           Inr [\<lparr>signature = ''sig-main'', slot = 12, blockTime = None\<rparr>]
         else Inr []),
      transaction_reply = (\<lambda>sig. Inl (Error ''429 Too Many Requests'')),
      token_accounts_reply = (\<lambda>owner flt.
         if owner = addr_down then Inl (NonError (Str ''socket hang up''))
         else Inr (Plain ''{value:[]}''))\<rparr>"

definition sample_runtime :: "(string, nat, sample_value) runtime" where
  "sample_runtime =
     \<lparr>PublicKey = sample_PublicKey,
      node_at = (\<lambda>url. if url = rpcEndpoint connectionTestnet then sample_testnet
                       else sample_mainnet),
      Number_toString = decimal,
      JSON_stringify = sample_stringify\<rparr>"

definition strict_runtime :: "(string, nat, sample_value) runtime" where
  "strict_runtime =
     sample_runtime\<lparr>PublicKey := (\<lambda>s. if s = addr_idle then Inr s else Inl (NonError Null))\<rparr>"

section \<open>Unfolding rules\<close>

lemmas sample_defs =
  addr_idle_def addr_active_def addr_odd_def addr_down_def TOKEN_PROGRAM_ID_def
  sample_PublicKey_def sample_testnet_def sample_mainnet_def sample_runtime_def
  strict_runtime_def connectionTestnet_def connectionMainnet_def

lemmas io_defs =
  return_io_def eval_io_def bind_io_def try_catch_def invoke_method_def
  getBalance_def getSignaturesForAddress_def getConfirmedTransaction_def
  getTokenAccountsByOwner_def signature_at_def outcome_def trace_def

lemmas handler_defs =
  get_soon_testnet_balance_def get_soon_testnet_last_transaction_def
  get_soon_testnet_account_tokens_def get_soon_mainnet_balance_def
  get_soon_mainnet_last_transaction_def get_soon_mainnet_account_tokens_def


section \<open>Shared facts\<close>

lemma connections_distinct: "connectionTestnet \<noteq> connectionMainnet"
  by (simp add: connectionTestnet_def connectionMainnet_def)

section \<open>Balance lookup\<close>

text \<open>
  C4. When the address constructor accepts the address and the balance query returns a
  number, the balance tool of either network resolves to one text block whose text is
  \<^verbatim>\<open>Balance: \<close> followed by that number as the runtime prints it; the invocation
  makes that one query on the network's own handle.
\<close>

theorem balance_success:
  assumes "PublicKey w address = Inr pk"
      and "balance_reply (node_at w (rpcEndpoint (connection_of net))) pk = Inr balance"
  shows "outcome (balance_tool net w address)
           = Inr (text_result (''Balance: '' @ Number_toString w balance))
         \<and> trace (balance_tool net w address) = [Rpc (connection_of net) (GetBalance pk)]"
  using assms by (cases net) (simp_all add: handler_defs io_defs text_result_def)

theorem balance_success_witness:
  "PublicKey sample_runtime addr_idle = Inr addr_idle
   \<and> balance_reply (node_at sample_runtime (rpcEndpoint (connection_of Testnet))) addr_idle
       = Inr 1500
   \<and> outcome (get_soon_testnet_balance sample_runtime addr_idle)
       = Inr (text_result ''Balance: 1500'')
   \<and> trace (get_soon_testnet_balance sample_runtime addr_idle)
       = [Rpc connectionTestnet (GetBalance addr_idle)]"
  using balance_success [of sample_runtime addr_idle addr_idle Testnet 1500]
  by (simp add: sample_defs decimal.simps)

text \<open>
  C5. The balance tools have no \<^verbatim>\<open>try\<close>: a value thrown by the address constructor
  or by the balance query is what the promise rejects with. For a malformed address no
  query is made and the outcome is the thrown value, never an envelope.
\<close>

theorem balance_errors_propagate:
  "(PublicKey w address = Inl e \<longrightarrow>
      outcome (balance_tool net w address) = Inl e
      \<and> trace (balance_tool net w address) = [])
   \<and> (PublicKey w address = Inr pk
        \<and> balance_reply (node_at w (rpcEndpoint (connection_of net))) pk = Inl e \<longrightarrow>
      outcome (balance_tool net w address) = Inl e)"
  by (cases net) (simp_all add: handler_defs io_defs)

theorem balance_errors_propagate_witness:
  "PublicKey sample_runtime ''not-a-key'' = Inl (Error ''Invalid public key input'')
   \<and> outcome (get_soon_mainnet_balance sample_runtime ''not-a-key'')
       = Inl (Error ''Invalid public key input'')
   \<and> trace (get_soon_mainnet_balance sample_runtime ''not-a-key'') = []
   \<and> balance_reply (node_at sample_runtime (rpcEndpoint connectionTestnet)) addr_down
       = Inl (Error ''fetch failed'')
   \<and> outcome (get_soon_testnet_balance sample_runtime addr_down) = Inl (Error ''fetch failed'')"
  using balance_errors_propagate
          [of sample_runtime "''not-a-key''" "Error ''Invalid public key input''" Mainnet]
        balance_errors_propagate
          [of sample_runtime addr_down "Error ''fetch failed''" Testnet addr_down]
  by (simp add: sample_defs)

section \<open>Last-transaction lookup\<close>

text \<open>
  C2. When the signature query returns the empty list, the last-transaction tool of
  either network resolves to one text block with the text
  \<^verbatim>\<open>No transactions found for this address\<close>, and the signature query is the only
  thing the invocation did: no transaction-detail query is made.
\<close>

theorem no_transactions_found:
  assumes "PublicKey w address = Inr pk"
      and "signatures_reply (node_at w (rpcEndpoint (connection_of net))) pk
             \<lparr>limit = Some 1\<rparr> = Inr []"
  shows "outcome (last_transaction_tool net w address)
           = Inr (text_result ''No transactions found for this address'')
         \<and> trace (last_transaction_tool net w address)
           = [Rpc (connection_of net) (GetSignaturesForAddress pk \<lparr>limit = Some 1\<rparr>)]"
  using assms by (cases net) (simp_all add: handler_defs io_defs text_result_def)

theorem no_transactions_found_witness:
  "PublicKey sample_runtime addr_idle = Inr addr_idle
   \<and> signatures_reply (node_at sample_runtime (rpcEndpoint (connection_of Testnet))) addr_idle
        \<lparr>limit = Some 1\<rparr> = Inr []
   \<and> outcome (get_soon_testnet_last_transaction sample_runtime addr_idle)
        = Inr (text_result ''No transactions found for this address'')
   \<and> trace (get_soon_testnet_last_transaction sample_runtime addr_idle)
        = [Rpc connectionTestnet (GetSignaturesForAddress addr_idle \<lparr>limit = Some 1\<rparr>)]"
  using no_transactions_found [of sample_runtime addr_idle addr_idle Testnet]
  by (simp add: sample_defs)

text \<open>
  C3, as the code has it. When the signature query returns at least one entry, the
  method calls of the invocation are exactly two, in this order and on the network's own
  handle: the signature query with \<^verbatim>\<open>limit = 1\<close>, then the transaction-detail query
  for the signature of the first entry. If that query returns a record and
  \<^verbatim>\<open>JSON.stringify\<close> returns its text, the tool resolves to one text block with that
  text. (If either throws, the \<^verbatim>\<open>catch\<close> branch answers instead: see C1.)
\<close>

theorem last_transaction_fetch:
  assumes "PublicKey w address = Inr pk"
      and "signatures_reply (node_at w (rpcEndpoint (connection_of net))) pk
             \<lparr>limit = Some 1\<rparr> = Inr sigs"
      and "sigs \<noteq> []"
  shows "rpc_calls (trace (last_transaction_tool net w address))
           = [(connection_of net, GetSignaturesForAddress pk \<lparr>limit = Some 1\<rparr>),
              (connection_of net, GetConfirmedTransaction (signature (sigs ! 0)))]
         \<and> (transaction_reply (node_at w (rpcEndpoint (connection_of net)))
                (signature (sigs ! 0)) = Inr transaction
              \<and> JSON_stringify w transaction = Inr json \<longrightarrow>
            outcome (last_transaction_tool net w address) = Inr (text_result json))"
  using assms
  by (cases net)
     (auto simp add: handler_defs io_defs text_result_def split: sum.splits)

theorem last_transaction_fetch_witness:
  "PublicKey sample_runtime addr_active = Inr addr_active
   \<and> signatures_reply (node_at sample_runtime (rpcEndpoint (connection_of Testnet)))
        addr_active \<lparr>limit = Some 1\<rparr>
        = Inr [\<lparr>signature = ''sig-9'', slot = 9, blockTime = Some 1700000009\<rparr>]
   \<and> transaction_reply (node_at sample_runtime (rpcEndpoint (connection_of Testnet))) ''sig-9''
        = Inr (Plain ''{slot:9}'')
   \<and> JSON_stringify sample_runtime (Plain ''{slot:9}'') = Inr ''{slot:9}''
   \<and> rpc_calls (trace (get_soon_testnet_last_transaction sample_runtime addr_active))
        = [(connectionTestnet, GetSignaturesForAddress addr_active \<lparr>limit = Some 1\<rparr>),
           (connectionTestnet, GetConfirmedTransaction ''sig-9'')]
   \<and> outcome (get_soon_testnet_last_transaction sample_runtime addr_active)
        = Inr (text_result ''{slot:9}'')"
  using last_transaction_fetch
          [of sample_runtime addr_active addr_active Testnet
              "[\<lparr>signature = ''sig-9'', slot = 9, blockTime = Some 1700000009\<rparr>]"
              "Plain ''{slot:9}''" "''{slot:9}''"]
  by (simp add: sample_defs)

text \<open>
  The claim without the condition on the detail query fails: on the sample mainnet node
  the signature query returns one entry for \<open>addr_active\<close>, the transaction-detail
  query throws, and the tool resolves to the error text, not to a serialized record.
\<close>

theorem last_transaction_detail_query_fails:
  "PublicKey sample_runtime addr_active = Inr addr_active
   \<and> signatures_reply (node_at sample_runtime (rpcEndpoint connectionMainnet)) addr_active
        \<lparr>limit = Some 1\<rparr> = Inr [\<lparr>signature = ''sig-main'', slot = 12, blockTime = None\<rparr>]
   \<and> transaction_reply (node_at sample_runtime (rpcEndpoint connectionMainnet)) ''sig-main''
        = Inl (Error ''429 Too Many Requests'')
   \<and> outcome (get_soon_mainnet_last_transaction sample_runtime addr_active)
        = Inr (text_result ''Error getting transaction: 429 Too Many Requests'')"
  by (simp add: sample_defs get_soon_mainnet_last_transaction_def io_defs text_result_def)

text \<open>
  C10. Every array read of a last-transaction invocation is at index 0 of a non-empty
  array: the branch for length zero returns before \<^verbatim>\<open>signatures[0]\<close> is reached.
\<close>

theorem index_in_bounds:
  assumes "ArrayRead i n \<in> set (trace (last_transaction_tool net w address))"
  shows "i = 0 \<and> i < n"
  using assms
  by (cases net)
     (auto simp add: handler_defs io_defs split: sum.splits if_splits)

theorem index_in_bounds_witness:
  "ArrayRead 0 1 \<in> set (trace (get_soon_testnet_last_transaction sample_runtime addr_active))
   \<and> (0::nat) < 1"
  using index_in_bounds [of 0 1 Testnet sample_runtime addr_active]
  by (simp add: sample_defs get_soon_testnet_last_transaction_def io_defs)

section \<open>Caught errors\<close>

text \<open>
  C1. In the last-transaction and account-tokens tools of either network every call sits
  inside \<^verbatim>\<open>try\<close>. Whichever call is the first to throw (the address constructor, the
  constructor of the token-program key, a query, \<^verbatim>\<open>JSON.stringify\<close>), the tool resolves
  to one text block: \<^verbatim>\<open>Error getting transaction: \<close> or \<^verbatim>\<open>Error getting tokens: \<close>
  followed by the message of the thrown \<^verbatim>\<open>Error\<close> (by \<^verbatim>\<open>String(error)\<close> for a thrown
  value that is not an \<^verbatim>\<open>Error\<close>).
\<close>

theorem caught_errors_become_text:
  "(PublicKey w address = Inl e \<longrightarrow>
      outcome (last_transaction_tool net w address)
        = Inr (text_result (''Error getting transaction: '' @ error_message e)))
   \<and> (PublicKey w address = Inr pk
        \<and> signatures_reply (node_at w (rpcEndpoint (connection_of net))) pk
            \<lparr>limit = Some 1\<rparr> = Inl e \<longrightarrow>
      outcome (last_transaction_tool net w address)
        = Inr (text_result (''Error getting transaction: '' @ error_message e)))
   \<and> (PublicKey w address = Inr pk
        \<and> signatures_reply (node_at w (rpcEndpoint (connection_of net))) pk
            \<lparr>limit = Some 1\<rparr> = Inr sigs
        \<and> sigs \<noteq> []
        \<and> transaction_reply (node_at w (rpcEndpoint (connection_of net)))
            (signature (sigs ! 0)) = Inl e \<longrightarrow>
      outcome (last_transaction_tool net w address)
        = Inr (text_result (''Error getting transaction: '' @ error_message e)))
   \<and> (PublicKey w address = Inr pk
        \<and> signatures_reply (node_at w (rpcEndpoint (connection_of net))) pk
            \<lparr>limit = Some 1\<rparr> = Inr sigs
        \<and> sigs \<noteq> []
        \<and> transaction_reply (node_at w (rpcEndpoint (connection_of net)))
            (signature (sigs ! 0)) = Inr transaction
        \<and> JSON_stringify w transaction = Inl e \<longrightarrow>
      outcome (last_transaction_tool net w address)
        = Inr (text_result (''Error getting transaction: '' @ error_message e)))
   \<and> (PublicKey w address = Inl e \<longrightarrow>
      outcome (account_tokens_tool net w address)
        = Inr (text_result (''Error getting tokens: '' @ error_message e)))
   \<and> (PublicKey w address = Inr pk
        \<and> PublicKey w TOKEN_PROGRAM_ID = Inl e \<longrightarrow>
      outcome (account_tokens_tool net w address)
        = Inr (text_result (''Error getting tokens: '' @ error_message e)))
   \<and> (PublicKey w address = Inr pk
        \<and> PublicKey w TOKEN_PROGRAM_ID = Inr program
        \<and> token_accounts_reply (node_at w (rpcEndpoint (connection_of net))) pk
            (ProgramId program) = Inl e \<longrightarrow>
      outcome (account_tokens_tool net w address)
        = Inr (text_result (''Error getting tokens: '' @ error_message e)))
   \<and> (PublicKey w address = Inr pk
        \<and> PublicKey w TOKEN_PROGRAM_ID = Inr program
        \<and> token_accounts_reply (node_at w (rpcEndpoint (connection_of net))) pk
            (ProgramId program) = Inr tokens
        \<and> JSON_stringify w tokens = Inl e \<longrightarrow>
      outcome (account_tokens_tool net w address)
        = Inr (text_result (''Error getting tokens: '' @ error_message e)))
   \<and> (\<forall>msg. error_message (Error msg) = msg)"
  by (cases net)
     (simp_all add: handler_defs io_defs text_result_def error_message_def TOKEN_PROGRAM_ID_def)

theorem caught_errors_become_text_witness:
  "outcome (get_soon_testnet_last_transaction sample_runtime ''not-a-key'')
     = Inr (text_result ''Error getting transaction: Invalid public key input'')
   \<and> outcome (get_soon_testnet_last_transaction sample_runtime addr_down)
     = Inr (text_result ''Error getting transaction: fetch failed'')
   \<and> outcome (get_soon_mainnet_last_transaction sample_runtime addr_active)
     = Inr (text_result ''Error getting transaction: 429 Too Many Requests'')
   \<and> outcome (get_soon_testnet_last_transaction sample_runtime addr_odd)
     = Inr (text_result ''Error getting transaction: Converting circular structure to JSON'')
   \<and> outcome (get_soon_mainnet_account_tokens sample_runtime ''not-a-key'')
     = Inr (text_result ''Error getting tokens: Invalid public key input'')
   \<and> outcome (get_soon_mainnet_account_tokens strict_runtime addr_idle)
     = Inr (text_result ''Error getting tokens: null'')
   \<and> outcome (get_soon_mainnet_account_tokens sample_runtime addr_down)
     = Inr (text_result ''Error getting tokens: socket hang up'')
   \<and> outcome (get_soon_testnet_account_tokens sample_runtime addr_odd)
     = Inr (text_result ''Error getting tokens: Converting circular structure to JSON'')"
  using caught_errors_become_text
          [where w = sample_runtime and address = "''not-a-key''" and net = Testnet
             and e = "Error ''Invalid public key input''"]
        caught_errors_become_text
          [where w = sample_runtime and address = addr_down and net = Testnet
             and e = "Error ''fetch failed''" and pk = addr_down]
        caught_errors_become_text
          [where w = sample_runtime and address = addr_active and net = Mainnet
             and e = "Error ''429 Too Many Requests''" and pk = addr_active
             and sigs = "[\<lparr>signature = ''sig-main'', slot = 12, blockTime = None\<rparr>]"]
        caught_errors_become_text
          [where w = sample_runtime and address = addr_odd and net = Testnet
             and e = "Error ''Converting circular structure to JSON''" and pk = addr_odd
             and sigs = "[\<lparr>signature = ''sig-odd'', slot = 3, blockTime = None\<rparr>]"
             and transaction = Circular]
        caught_errors_become_text
          [where w = sample_runtime and address = "''not-a-key''" and net = Mainnet
             and e = "Error ''Invalid public key input''"]
        caught_errors_become_text
          [where w = strict_runtime and address = addr_idle and net = Mainnet
             and e = "NonError Null" and pk = addr_idle]
        caught_errors_become_text
          [where w = sample_runtime and address = addr_down and net = Mainnet
             and e = "NonError (Str ''socket hang up'')" and pk = addr_down
             and program = TOKEN_PROGRAM_ID]
        caught_errors_become_text
          [where w = sample_runtime and address = addr_odd and net = Testnet
             and e = "Error ''Converting circular structure to JSON''" and pk = addr_odd
             and program = TOKEN_PROGRAM_ID and tokens = Circular]
  by (simp add: sample_defs error_message_def)

text \<open>
  C9. A malformed address, one the address constructor throws on, never makes a
  last-transaction or account-tokens tool reject: the thrown value is caught, no query is
  made, and the tool resolves to the one error text block of its family.
\<close>

theorem malformed_address_is_caught:
  assumes "PublicKey w address = Inl e"
  shows "outcome (last_transaction_tool net w address)
           = Inr (text_result (''Error getting transaction: '' @ error_message e))
         \<and> trace (last_transaction_tool net w address) = []
         \<and> outcome (account_tokens_tool net w address)
           = Inr (text_result (''Error getting tokens: '' @ error_message e))
         \<and> trace (account_tokens_tool net w address) = []"
  using assms
  by (cases net)
     (simp_all add: handler_defs io_defs text_result_def error_message_def)

theorem malformed_address_is_caught_witness:
  "PublicKey strict_runtime ''0x12ab'' = Inl (NonError Null)
   \<and> outcome (get_soon_mainnet_last_transaction strict_runtime ''0x12ab'')
        = Inr (text_result ''Error getting transaction: null'')
   \<and> trace (get_soon_mainnet_last_transaction strict_runtime ''0x12ab'') = []
   \<and> outcome (get_soon_mainnet_account_tokens strict_runtime ''0x12ab'')
        = Inr (text_result ''Error getting tokens: null'')
   \<and> PublicKey sample_runtime ''0x12ab'' = Inl (Error ''Invalid public key input'')
   \<and> outcome (get_soon_testnet_last_transaction sample_runtime ''0x12ab'')
        = Inr (text_result ''Error getting transaction: Invalid public key input'')
   \<and> outcome (get_soon_testnet_account_tokens sample_runtime ''0x12ab'')
        = Inr (text_result ''Error getting tokens: Invalid public key input'')"
  using malformed_address_is_caught [of strict_runtime "''0x12ab''" "NonError Null" Mainnet]
        malformed_address_is_caught
          [of sample_runtime "''0x12ab''" "Error ''Invalid public key input''" Testnet]
  by (simp add: sample_defs error_message_def)

section \<open>Token-account lookup\<close>

text \<open>
  C6. On either network, every token-account query an account-tokens invocation makes
  carries as its filter the program key built from
  \<^verbatim>\<open>TokenkegQfeZyiNwAJbNbGKPFXCWuBvf9Ss623VQ5DA\<close>; and once both keys are built, that
  query is made, once, for the owner's key.
\<close>

theorem token_program_filter:
  "(\<forall>c owner flt.
      (c, GetTokenAccountsByOwner owner flt)
         \<in> set (rpc_calls (trace (account_tokens_tool net w address))) \<longrightarrow>
      (\<exists>program. PublicKey w ''TokenkegQfeZyiNwAJbNbGKPFXCWuBvf9Ss623VQ5DA'' = Inr program
                 \<and> flt = ProgramId program))
   \<and> (PublicKey w address = Inr pk
        \<and> PublicKey w ''TokenkegQfeZyiNwAJbNbGKPFXCWuBvf9Ss623VQ5DA'' = Inr key \<longrightarrow>
      rpc_calls (trace (account_tokens_tool net w address))
        = [(connection_of net, GetTokenAccountsByOwner pk (ProgramId key))])"
  by (cases net)
     (auto simp add: handler_defs io_defs split: sum.splits)

theorem token_program_filter_witness:
  "PublicKey sample_runtime addr_idle = Inr addr_idle
   \<and> PublicKey sample_runtime ''TokenkegQfeZyiNwAJbNbGKPFXCWuBvf9Ss623VQ5DA''
        = Inr ''TokenkegQfeZyiNwAJbNbGKPFXCWuBvf9Ss623VQ5DA''
   \<and> rpc_calls (trace (get_soon_mainnet_account_tokens sample_runtime addr_idle))
        = [(connectionMainnet,
            GetTokenAccountsByOwner addr_idle
              (ProgramId ''TokenkegQfeZyiNwAJbNbGKPFXCWuBvf9Ss623VQ5DA''))]
   \<and> (connectionMainnet,
        GetTokenAccountsByOwner addr_idle
          (ProgramId ''TokenkegQfeZyiNwAJbNbGKPFXCWuBvf9Ss623VQ5DA''))
        \<in> set (rpc_calls (trace (get_soon_mainnet_account_tokens sample_runtime addr_idle)))"
proof -
  note filter_fact =
    token_program_filter
      [of Mainnet sample_runtime addr_idle addr_idle
          "''TokenkegQfeZyiNwAJbNbGKPFXCWuBvf9Ss623VQ5DA''"]
  have keys:
    "PublicKey sample_runtime addr_idle = Inr addr_idle
     \<and> PublicKey sample_runtime ''TokenkegQfeZyiNwAJbNbGKPFXCWuBvf9Ss623VQ5DA''
          = Inr ''TokenkegQfeZyiNwAJbNbGKPFXCWuBvf9Ss623VQ5DA''"
    by (simp add: sample_defs)
  have calls:
    "rpc_calls (trace (account_tokens_tool Mainnet sample_runtime addr_idle))
       = [(connection_of Mainnet,
           GetTokenAccountsByOwner addr_idle
             (ProgramId ''TokenkegQfeZyiNwAJbNbGKPFXCWuBvf9Ss623VQ5DA''))]"
    using filter_fact [THEN conjunct2] keys by (rule mp)
  then have issued:
    "(connection_of Mainnet,
      GetTokenAccountsByOwner addr_idle
        (ProgramId ''TokenkegQfeZyiNwAJbNbGKPFXCWuBvf9Ss623VQ5DA''))
       \<in> set (rpc_calls (trace (account_tokens_tool Mainnet sample_runtime addr_idle)))"
    by simp
  have "\<exists>program.
          PublicKey sample_runtime ''TokenkegQfeZyiNwAJbNbGKPFXCWuBvf9Ss623VQ5DA'' = Inr program
          \<and> ProgramId ''TokenkegQfeZyiNwAJbNbGKPFXCWuBvf9Ss623VQ5DA'' = ProgramId program"
    using filter_fact [THEN conjunct1, rule_format, OF issued] .
  with keys calls show ?thesis by simp
qed

section \<open>All six tools\<close>

text \<open>
  C7. Whenever a registered handler resolves, on any path, its envelope holds exactly one
  content block, and the block's type is \<^verbatim>\<open>text\<close> (its payload is a string by its
  type).
\<close>

theorem single_text_block:
  assumes "(name, descr, h) \<in> set server_tools"
      and "outcome (h w address) = Inr r"
  shows "length (content r) = 1 \<and> (\<exists>t. content r = [\<lparr>type' = ''text'', text' = t\<rparr>])"
  using assms
  by (auto simp add: server_tools_def handler_defs io_defs split: sum.splits if_splits)

theorem single_text_block_witness:
  "(''get-soon-testnet-last-transaction'',
      ''Get the last transaction of an address on the Soon testnet'',
      get_soon_testnet_last_transaction) \<in> set server_tools
   \<and> outcome (get_soon_testnet_last_transaction sample_runtime addr_active)
        = Inr (text_result ''{slot:9}'')
   \<and> length (content (text_result ''{slot:9}'')) = 1
   \<and> content (text_result ''{slot:9}'') = [\<lparr>type' = ''text'', text' = ''{slot:9}''\<rparr>]"
  using single_text_block
          [of "''get-soon-testnet-last-transaction''"
              "''Get the last transaction of an address on the Soon testnet''"
              get_soon_testnet_last_transaction sample_runtime addr_active
              "text_result ''{slot:9}''"]
  by (simp add: server_tools_def sample_defs get_soon_testnet_last_transaction_def io_defs
        text_result_def)

text \<open>
  C8. A registered tool named for a network makes every method call of every invocation
  on that network's client handle, which is not the handle of the other network.
\<close>

theorem no_cross_network_calls:
  assumes "(name, descr, h) \<in> set server_tools"
      and "named_for net name"
      and "(c, r) \<in> set (rpc_calls (trace (h w address)))"
  shows "c = connection_of net \<and> (\<forall>other. other \<noteq> net \<longrightarrow> c \<noteq> connection_of other)"
proof -
  have other: "\<And>k. k \<noteq> net \<Longrightarrow> connection_of k \<noteq> connection_of net"
    using connections_distinct by (metis connection_of.simps network.exhaust)
  have "c = connection_of net"
    using assms
    by (cases net)
       (auto simp add: server_tools_def named_for_def handler_defs io_defs
             split: sum.splits if_splits)
  with other show ?thesis by metis
qed

theorem no_cross_network_calls_witness:
  "(''get-soon-mainnet-account-tokens'',
      ''Get the tokens of a address on the Soon mainnet'',
      get_soon_mainnet_account_tokens) \<in> set server_tools
   \<and> named_for Mainnet ''get-soon-mainnet-account-tokens''
   \<and> (connectionMainnet, GetTokenAccountsByOwner addr_idle (ProgramId TOKEN_PROGRAM_ID))
        \<in> set (rpc_calls (trace (get_soon_mainnet_account_tokens sample_runtime addr_idle)))
   \<and> connectionMainnet = connection_of Mainnet
   \<and> connectionMainnet \<noteq> connection_of Testnet"
  using no_cross_network_calls
          [of "''get-soon-mainnet-account-tokens''"
              "''Get the tokens of a address on the Soon mainnet''"
              get_soon_mainnet_account_tokens Mainnet connectionMainnet
              "GetTokenAccountsByOwner addr_idle (ProgramId TOKEN_PROGRAM_ID)"
              sample_runtime addr_idle]
  by (simp add: server_tools_def named_for_def sample_defs
        get_soon_mainnet_account_tokens_def io_defs)

end
